theory Spec2Isabelle
  imports Main
begin

section \<open>Strings as the script sees them\<close>

text \<open>
  The script \<^verbatim>\<open>ci/generate-debian-changelog.py\<close> works on Python \<^verbatim>\<open>str\<close> values, that is
  on sequences of code points. A \<^typ>\<open>char\<close> of this development stands for the code point
  of the same number, so the model covers the texts whose code points are below 256
  (ASCII and Latin-1). All character classes below are the classes Python uses on
  those code points.
\<close>

abbreviation NL :: char where
  "NL \<equiv> CHR 0x0A"

abbreviation SP :: char where
  "SP \<equiv> CHR 0x20"

text \<open>
  \<^verbatim>\<open>str.isspace\<close>, which is also the class \<^verbatim>\<open>\s\<close> of \<^verbatim>\<open>re\<close> on \<^verbatim>\<open>str\<close> patterns:
  TAB, LF, VT, FF, CR, the separators FS, GS, RS, US, the space, NEL (0x85) and the
  no-break space (0xA0).
\<close>

definition isspace :: "char \<Rightarrow> bool" where
  "isspace c =
     (let n = (of_char c :: nat)
      in (9 \<le> n \<and> n \<le> 13) \<or> (28 \<le> n \<and> n \<le> 32) \<or> n = 133 \<or> n = 160)"

text \<open>The class \<^verbatim>\<open>\d\<close> (decimal digits; below 256 these are \<^verbatim>\<open>0\<close> to \<^verbatim>\<open>9\<close>).\<close>

definition isdigit :: "char \<Rightarrow> bool" where
  "isdigit c = (c \<in> set ''0123456789'')"

text \<open>The class \<^verbatim>\<open>[0-9.]\<close>.\<close>

definition isverchar :: "char \<Rightarrow> bool" where
  "isverchar c = (c \<in> set ''0123456789.'')"

text \<open>\<^verbatim>\<open>s.strip()\<close>: leading and trailing whitespace removed.\<close>

definition strip :: "string \<Rightarrow> string" where
  "strip s = rev (dropWhile isspace (rev (dropWhile isspace s)))"

text \<open>\<^verbatim>\<open>s.rstrip("\n")\<close>: every trailing line feed removed.\<close>

definition rstrip_nl :: "string \<Rightarrow> string" where
  "rstrip_nl s = rev (dropWhile (\<lambda>c. c = NL) (rev s))"

text \<open>
  \<^verbatim>\<open>f.readlines()\<close> on the decoded text: the text is cut after every line feed, each line
  keeps its line feed, and a last line without one is kept as it is.
\<close>

fun readlines :: "string \<Rightarrow> string list" where
  "readlines [] = []"
| "readlines (c # cs) =
     (if c = NL then [c] # readlines cs
      else (case readlines cs of [] \<Rightarrow> [[c]] | l # ls \<Rightarrow> (c # l) # ls))"

text \<open>\<^verbatim>\<open>"\n".join(output)\<close>.\<close>

fun join_nl :: "string list \<Rightarrow> string" where
  "join_nl [] = []"
| "join_nl [x] = x"
| "join_nl (x # y # ys) = x @ NL # join_nl (y # ys)"

section \<open>The four line patterns\<close>

text \<open>
  Each pattern is applied with \<^verbatim>\<open>match\<close>, so it is anchored at the start of the line only.
  The result is \<open>None\<close> when the pattern does not match and the captured groups otherwise.
  The greedy repetitions are taken as the longest run of their class: in every pattern the
  class that is repeated and the character that must follow it are disjoint, or what follows
  is \<^verbatim>\<open>(.*)\<close>, which matches any rest up to a line feed, so the longest run is the match
  Python's backtracking search finds.
\<close>

text \<open>The group \<^verbatim>\<open>(\d{4}-\d{2}-\d{2})\<close>.\<close>

fun date_re :: "string \<Rightarrow> bool" where
  "date_re [y1, y2, y3, y4, h1, m1, m2, h2, d1, d2] =
     (isdigit y1 \<and> isdigit y2 \<and> isdigit y3 \<and> isdigit y4 \<and> h1 = CHR ''-'' \<and>
      isdigit m1 \<and> isdigit m2 \<and> h2 = CHR ''-'' \<and> isdigit d1 \<and> isdigit d2)"
| "date_re _ = False"

text \<open>\<^verbatim>\<open>version_header_re = re.compile(r"^fping\s+([0-9.]+)\s+\((\d{4}-\d{2}-\d{2})\)")\<close>\<close>

definition version_header_re :: "string \<Rightarrow> (string \<times> string) option" where
  "version_header_re line =
     (let r1 = drop 5 line;
          r2 = dropWhile isspace r1;
          v = takeWhile isverchar r2;
          r3 = dropWhile isverchar r2;
          r4 = dropWhile isspace r3;
          d = take 10 (drop 1 r4)
      in if take 5 line = ''fping'' \<and> takeWhile isspace r1 \<noteq> [] \<and> v \<noteq> [] \<and>
            takeWhile isspace r3 \<noteq> [] \<and> take 1 r4 = ''('' \<and> date_re d \<and>
            take 1 (drop 11 r4) = '')''
         then Some (v, d) else None)"

text \<open>\<^verbatim>\<open>section_re = re.compile(r"^##\s+(.*)")\<close>\<close>

definition section_re :: "string \<Rightarrow> string option" where
  "section_re line =
     (let r = drop 2 line
      in if take 2 line = ''##'' \<and> takeWhile isspace r \<noteq> []
         then Some (takeWhile (\<lambda>c. c \<noteq> NL) (dropWhile isspace r)) else None)"

text \<open>\<^verbatim>\<open>bullet_re = re.compile(r"^\s*-\s+(.*)")\<close>\<close>

definition bullet_re :: "string \<Rightarrow> string option" where
  "bullet_re line =
     (let r = dropWhile isspace line; r' = drop 1 r
      in if take 1 r = ''-'' \<and> takeWhile isspace r' \<noteq> []
         then Some (takeWhile (\<lambda>c. c \<noteq> NL) (dropWhile isspace r')) else None)"

text \<open>\<^verbatim>\<open>continuation_re = re.compile(r"^\s{2,}(.*)")\<close>\<close>

definition continuation_re :: "string \<Rightarrow> string option" where
  "continuation_re line =
     (if 2 \<le> length (takeWhile isspace line)
      then Some (takeWhile (\<lambda>c. c \<noteq> NL) (dropWhile isspace line)) else None)"

section \<open>The parser\<close>

text \<open>
  An entry is the dictionary with the keys \<^verbatim>\<open>version\<close>, \<^verbatim>\<open>date\<close> and \<^verbatim>\<open>sections\<close>.
  \<^verbatim>\<open>sections\<close> is a Python \<^verbatim>\<open>dict\<close>, which keeps its keys in the order of their first
  insertion: an association list with distinct keys, updated in place.
\<close>

record entry =
  version :: string
  date :: string
  sections :: "(string \<times> string list) list"

datatype error = KeyError | ValueError | IndexError

text \<open>\<^verbatim>\<open>d[k] = v\<close>: a key that is present keeps its place, a new key goes last.\<close>

fun dict_set :: "'k \<Rightarrow> 'v \<Rightarrow> ('k \<times> 'v) list \<Rightarrow> ('k \<times> 'v) list" where
  "dict_set k v [] = [(k, v)]"
| "dict_set k v (p # d) = (if fst p = k then (k, v) # d else p # dict_set k v d)"

text \<open>\<^verbatim>\<open>d[k].append(x)\<close>: raises \<^verbatim>\<open>KeyError\<close> when the key is missing.\<close>

fun dict_append :: "'k \<Rightarrow> 'a \<Rightarrow> ('k \<times> 'a list) list \<Rightarrow> error + ('k \<times> 'a list) list" where
  "dict_append k x [] = Inl KeyError"
| "dict_append k x (p # d) =
     (if fst p = k then Inr ((k, snd p @ [x]) # d)
      else (case dict_append k x d of Inl e \<Rightarrow> Inl e | Inr d' \<Rightarrow> Inr (p # d')))"

text \<open>The local variables of \<^verbatim>\<open>parse_markdown_changelog\<close>.\<close>

record pstate =
  entries :: "entry list"
  current :: "entry option"
  current_section :: "string option"
  skip_next_block :: bool
  bullet_accumulator :: "string option"

definition init :: pstate where
  "init = \<lparr>entries = [], current = None, current_section = None,
           skip_next_block = False, bullet_accumulator = None\<rparr>"

text \<open>Truth value of a variable that is \<^verbatim>\<open>None\<close> or a string.\<close>

definition truthy :: "string option \<Rightarrow> bool" where
  "truthy x = (case x of None \<Rightarrow> False | Some s \<Rightarrow> s \<noteq> [])"

text \<open>
  \<^verbatim>\<open>current["sections"][current_section].append(bullet_accumulator.strip())\<close>
  for the section \<open>sec\<close> and the accumulator \<open>acc\<close>.
\<close>

definition append_item :: "entry \<Rightarrow> string \<Rightarrow> string \<Rightarrow> error + entry" where
  "append_item cur sec acc =
     (case dict_append sec (strip acc) (sections cur) of
        Inl e \<Rightarrow> Inl e
      | Inr d \<Rightarrow> Inr (cur\<lparr>sections := d\<rparr>))"

text \<open>
  The statement that stands at the version header, at the section header and at the blank
  line:
  \<^verbatim>\<open>if bullet_accumulator and current_section: (append); bullet_accumulator = None\<close>.
  It returns the entry and the accumulator after it.
\<close>

definition flush :: "entry \<Rightarrow> string option \<Rightarrow> string option \<Rightarrow> error + entry \<times> string option" where
  "flush cur acc sec =
     (case (acc, sec) of
        (Some a, Some t) \<Rightarrow>
          (if a \<noteq> [] \<and> t \<noteq> []
           then (case append_item cur t a of Inl e \<Rightarrow> Inl e | Inr cur' \<Rightarrow> Inr (cur', None))
           else Inr (cur, acc))
      | _ \<Rightarrow> Inr (cur, acc))"

text \<open>Lines 61 to 79: the branch of a version header, with the captured groups.\<close>

definition on_version :: "string \<times> string \<Rightarrow> pstate \<Rightarrow> error + pstate" where
  "on_version vd s =
     (let fresh = \<lparr>version = fst vd, date = snd vd, sections = []\<rparr>
      in case current s of
           None \<Rightarrow> Inr (s\<lparr>current := Some fresh, current_section := None\<rparr>)
         | Some cur \<Rightarrow>
             (case flush cur (bullet_accumulator s) (current_section s) of
                Inl e \<Rightarrow> Inl e
              | Inr (cur', acc') \<Rightarrow>
                  Inr (s\<lparr>entries := entries s @ [cur'], current := Some fresh,
                         current_section := None, bullet_accumulator := acc'\<rparr>)))"

text \<open>Lines 84 to 91: the branch of a section header, with the captured title.\<close>

definition on_section :: "string \<Rightarrow> entry \<Rightarrow> pstate \<Rightarrow> error + pstate" where
  "on_section title cur s =
     (case flush cur (bullet_accumulator s) (current_section s) of
        Inl e \<Rightarrow> Inl e
      | Inr (cur', acc') \<Rightarrow>
          Inr (s\<lparr>current := Some (cur'\<lparr>sections := dict_set (strip title) [] (sections cur')\<rparr>),
                 current_section := Some (strip title), bullet_accumulator := acc'\<rparr>))"

text \<open>Lines 93 to 98: the branch of a bullet in a current section \<open>sec\<close>.\<close>

definition on_bullet :: "string \<Rightarrow> string \<Rightarrow> entry \<Rightarrow> pstate \<Rightarrow> error + pstate" where
  "on_bullet text sec cur s =
     (case (case bullet_accumulator s of
              None \<Rightarrow> Inr cur
            | Some a \<Rightarrow> if a \<noteq> [] then append_item cur sec a else Inr cur) of
        Inl e \<Rightarrow> Inl e
      | Inr cur' \<Rightarrow> Inr (s\<lparr>current := Some cur', bullet_accumulator := Some text\<rparr>))"

text \<open>Lines 105 to 107: the last statement of the loop body.\<close>

definition on_other :: "string \<Rightarrow> entry \<Rightarrow> pstate \<Rightarrow> error + pstate" where
  "on_other line cur s =
     (if truthy (bullet_accumulator s) \<and> truthy (current_section s) \<and> strip line = []
      then (case flush cur (bullet_accumulator s) (current_section s) of
              Inl e \<Rightarrow> Inl e
            | Inr (cur', acc') \<Rightarrow> Inr (s\<lparr>current := Some cur', bullet_accumulator := acc'\<rparr>))
      else Inr s)"

text \<open>Lines 100 to 107: the continuation line, and what remains after it.\<close>

definition on_rest :: "string \<Rightarrow> entry \<Rightarrow> pstate \<Rightarrow> error + pstate" where
  "on_rest line cur s =
     (case (continuation_re line, bullet_accumulator s) of
        (Some text, Some acc) \<Rightarrow> Inr (s\<lparr>bullet_accumulator := Some (acc @ '' '' @ strip text)\<rparr>)
      | _ \<Rightarrow> on_other line cur s)"

text \<open>
  The body of \<^verbatim>\<open>for line in lines\<close> (lines 50 to 107) on a line that has passed
  \<^verbatim>\<open>rstrip("\n")\<close>; \<open>Inl\<close> is an exception that leaves the loop.
\<close>

definition loop_body :: "string \<Rightarrow> pstate \<Rightarrow> error + pstate" where
  "loop_body line s =
     (if strip line = ''Next'' then Inr (s\<lparr>skip_next_block := True\<rparr>)
      else if skip_next_block s \<and> version_header_re line = None then Inr s
      else
        (let s1 = s\<lparr>skip_next_block := False\<rparr>
         in case version_header_re line of
              Some vd \<Rightarrow> on_version vd s1
            | None \<Rightarrow>
                (case current s1 of
                   None \<Rightarrow> Inr s1
                 | Some cur \<Rightarrow>
                     (case section_re line of
                        Some title \<Rightarrow> on_section title cur s1
                      | None \<Rightarrow>
                          (case (bullet_re line, current_section s1) of
                             (Some text, Some sec) \<Rightarrow>
                               (if sec \<noteq> [] then on_bullet text sec cur s1
                                else on_rest line cur s1)
                           | _ \<Rightarrow> on_rest line cur s1)))))"

text \<open>The loop over the lines.\<close>

fun run_loop :: "string list \<Rightarrow> pstate \<Rightarrow> error + pstate" where
  "run_loop [] s = Inr s"
| "run_loop (l # ls) s = (case loop_body l s of Inl e \<Rightarrow> Inl e | Inr s' \<Rightarrow> run_loop ls s')"

text \<open>Lines 109 to 115: the statements after the loop and the returned list.\<close>

definition finish :: "pstate \<Rightarrow> error + entry list" where
  "finish s =
     (case current s of
        None \<Rightarrow> Inr (entries s)
      | Some cur \<Rightarrow>
          (case flush cur (bullet_accumulator s) (current_section s) of
             Inl e \<Rightarrow> Inl e
           | Inr (cur', acc') \<Rightarrow> Inr (entries s @ [cur'])))"

definition parse_lines :: "string list \<Rightarrow> error + entry list" where
  "parse_lines ls = (case run_loop ls init of Inl e \<Rightarrow> Inl e | Inr s \<Rightarrow> finish s)"

text \<open>\<^verbatim>\<open>parse_markdown_changelog\<close> on the text of the file.\<close>

definition parse_markdown_changelog :: "string \<Rightarrow> error + entry list" where
  "parse_markdown_changelog txt = parse_lines (map rstrip_nl (readlines txt))"

section \<open>The renderer\<close>

subsection \<open>The date of the trailer\<close>

text \<open>
  \<^verbatim>\<open>format_debian_date\<close> calls two library functions, modelled here after CPython.
  \<^verbatim>\<open>datetime.strptime(date_str, "%Y-%m-%d")\<close> first matches the string against the pattern
  \<^verbatim>\<open>(?P<Y>\d\d\d\d)-(?P<m>1[0-2]|0[1-9]|[1-9])-(?P<d>3[0-1]|[1-2]\d|0[1-9]|[1-9]| [1-9])\<close>,
  raises \<^verbatim>\<open>ValueError\<close> when there is no match or when text remains after the match,
  converts the three groups with \<^verbatim>\<open>int\<close> and builds the date, which raises
  \<^verbatim>\<open>ValueError\<close> for a year, month or day out of range.
\<close>

text \<open>The next character exists and belongs to the class written as the string of its members.\<close>

definition cls :: "string \<Rightarrow> string \<Rightarrow> bool" where
  "cls members s = (case s of [] \<Rightarrow> False | c # _ \<Rightarrow> c \<in> set members)"

text \<open>The alternatives of a group in their order, each with the text it leaves.\<close>

definition month_alts :: "string \<Rightarrow> (string \<times> string) list" where
  "month_alts s =
     (if cls ''1'' s \<and> cls ''012'' (drop 1 s) then [(take 2 s, drop 2 s)] else []) @
     (if cls ''0'' s \<and> cls ''123456789'' (drop 1 s) then [(take 2 s, drop 2 s)] else []) @
     (if cls ''123456789'' s then [(take 1 s, drop 1 s)] else [])"

definition day_alts :: "string \<Rightarrow> (string \<times> string) list" where
  "day_alts s =
     (if cls ''3'' s \<and> cls ''01'' (drop 1 s) then [(take 2 s, drop 2 s)] else []) @
     (if cls ''12'' s \<and> cls ''0123456789'' (drop 1 s) then [(take 2 s, drop 2 s)] else []) @
     (if cls ''0'' s \<and> cls ''123456789'' (drop 1 s) then [(take 2 s, drop 2 s)] else []) @
     (if cls ''123456789'' s then [(take 1 s, drop 1 s)] else []) @
     (if cls '' '' s \<and> cls ''123456789'' (drop 1 s) then [(take 2 s, drop 2 s)] else [])"

text \<open>
  The first match of the pattern in the order of a backtracking search: the groups
  \<^verbatim>\<open>Y\<close>, \<^verbatim>\<open>m\<close>, \<^verbatim>\<open>d\<close> and the text after the match.
\<close>

definition strptime_re :: "string \<Rightarrow> (string \<times> string \<times> string \<times> string) option" where
  "strptime_re s =
     (if length (take 4 s) = 4 \<and> list_all isdigit (take 4 s) \<and> cls ''-'' (drop 4 s)
      then (case concat (map (\<lambda>(m, r). if cls ''-'' r
                                then map (\<lambda>(d, r'). (m, d, r')) (day_alts (drop 1 r))
                                else [])
                         (month_alts (drop 5 s))) of
              [] \<Rightarrow> None
            | (m, d, r') # _ \<Rightarrow> Some (take 4 s, m, d, r'))
      else None)"

text \<open>\<^verbatim>\<open>int\<close> on a group of the pattern: digits, after at most a leading space.\<close>

definition digit_val :: "char \<Rightarrow> nat" where
  "digit_val c = of_char c - 48"

definition py_int :: "string \<Rightarrow> nat" where
  "py_int s = foldl (\<lambda>n c. 10 * n + digit_val c) 0 (strip s)"

definition is_leap :: "nat \<Rightarrow> bool" where
  "is_leap y = (y mod 4 = 0 \<and> (y mod 100 \<noteq> 0 \<or> y mod 400 = 0))"

definition days_before_month :: "nat \<Rightarrow> nat \<Rightarrow> nat" where
  "days_before_month y m =
     sum_list (take (m - 1) [31, 28, 31, 30, 31, 30, 31, 31, 30, 31, 30, 31]) +
     (if 2 < m \<and> is_leap y then 1 else 0)"

definition days_in_month :: "nat \<Rightarrow> nat \<Rightarrow> nat" where
  "days_in_month y m =
     (if m = 2 \<and> is_leap y then 29
      else [31, 28, 31, 30, 31, 30, 31, 31, 30, 31, 30, 31] ! (m - 1))"

text \<open>The check of the date's constructor (\<^verbatim>\<open>MINYEAR = 1\<close>, \<^verbatim>\<open>MAXYEAR = 9999\<close>).\<close>

definition check_date_fields :: "nat \<Rightarrow> nat \<Rightarrow> nat \<Rightarrow> bool" where
  "check_date_fields y m d =
     (1 \<le> y \<and> y \<le> 9999 \<and> 1 \<le> m \<and> m \<le> 12 \<and> 1 \<le> d \<and> d \<le> days_in_month y m)"

definition strptime :: "string \<Rightarrow> error + nat \<times> nat \<times> nat" where
  "strptime s =
     (case strptime_re s of
        None \<Rightarrow> Inl ValueError
      | Some (Y, m, d, rest) \<Rightarrow>
          (if rest \<noteq> [] then Inl ValueError
           else if check_date_fields (py_int Y) (py_int m) (py_int d)
           then Inr (py_int Y, py_int m, py_int d)
           else Inl ValueError))"

text \<open>
  \<^verbatim>\<open>email.utils.format_datetime\<close> on a date without time zone prints
  \<^verbatim>\<open>'%s, %02d %s %04d %02d:%02d:%02d %s'\<close> with the name of the day of the week, the day,
  the name of the month, the year, midnight and the zone \<^verbatim>\<open>-0000\<close>.
\<close>

definition weekday :: "nat \<Rightarrow> nat \<Rightarrow> nat \<Rightarrow> nat" where
  "weekday y m d =
     (let y1 = y - 1;
          ordinal = y1 * 365 + y1 div 4 - y1 div 100 + y1 div 400 + days_before_month y m + d
      in (ordinal + 6) mod 7)"

definition digit_char :: "nat \<Rightarrow> char" where
  "digit_char n = char_of (48 + n mod 10)"

definition pad2 :: "nat \<Rightarrow> string" where
  "pad2 n = [digit_char (n div 10), digit_char n]"

definition pad4 :: "nat \<Rightarrow> string" where
  "pad4 n = [digit_char (n div 1000), digit_char (n div 100), digit_char (n div 10), digit_char n]"

definition format_datetime :: "nat \<times> nat \<times> nat \<Rightarrow> string" where
  "format_datetime ymd =
     (case ymd of (y, m, d) \<Rightarrow>
        [''Mon'', ''Tue'', ''Wed'', ''Thu'', ''Fri'', ''Sat'', ''Sun''] ! weekday y m d @ '', '' @
        pad2 d @ '' '' @
        [''Jan'', ''Feb'', ''Mar'', ''Apr'', ''May'', ''Jun'',
         ''Jul'', ''Aug'', ''Sep'', ''Oct'', ''Nov'', ''Dec''] ! (m - 1) @ '' '' @
        pad4 y @ '' 00:00:00 -0000'')"

definition format_debian_date :: "string \<Rightarrow> error + string" where
  "format_debian_date date_str =
     (case strptime date_str of Inl e \<Rightarrow> Inl e | Inr dt \<Rightarrow> Inr (format_datetime dt))"

subsection \<open>The stanzas\<close>

definition PACKAGE_NAME :: string where
  "PACKAGE_NAME = ''fping''"

definition DEBIAN_DISTRIBUTION :: string where
  "DEBIAN_DISTRIBUTION = ''unstable''"

definition DEBIAN_URGENCY :: string where
  "DEBIAN_URGENCY = ''low''"

definition MAINTAINER_NAME :: string where
  "MAINTAINER_NAME = ''David Schweikert''"

definition MAINTAINER_EMAIL :: string where
  "MAINTAINER_EMAIL = ''david@schweikert.ch''"

definition MAX_LINE_LENGTH :: nat where
  "MAX_LINE_LENGTH = 80"

text \<open>
  \<^verbatim>\<open>wrap_bullet\<close> hands the item to \<^verbatim>\<open>textwrap.TextWrapper.fill\<close>. The library's filling
  algorithm is the parameter \<open>fill\<close>, applied to the width, the two indents and the text.
\<close>

type_synonym filler = "nat \<Rightarrow> string \<Rightarrow> string \<Rightarrow> string \<Rightarrow> string"

definition wrap_bullet :: "filler \<Rightarrow> string \<Rightarrow> string" where
  "wrap_bullet fill txt = fill MAX_LINE_LENGTH ''    - '' ''      '' txt"

text \<open>Lines 136 to 143: what one section appends to \<^verbatim>\<open>output\<close>.\<close>

definition section_lines :: "filler \<Rightarrow> string \<times> string list \<Rightarrow> string list" where
  "section_lines fill p =
     (if snd p = [] then []
      else (''  * '' @ fst p) # map (wrap_bullet fill) (snd p) @ [[]])"

text \<open>Lines 132 to 147: what one entry appends to \<^verbatim>\<open>output\<close>, given its formatted date.\<close>

definition entry_lines :: "filler \<Rightarrow> entry \<Rightarrow> string \<Rightarrow> string list" where
  "entry_lines fill e d =
     [PACKAGE_NAME @ '' ('' @ version e @ '') '' @ DEBIAN_DISTRIBUTION @ ''; urgency='' @
        DEBIAN_URGENCY, []] @
     concat (map (section_lines fill) (sections e)) @
     ['' -- '' @ MAINTAINER_NAME @ '' <'' @ MAINTAINER_EMAIL @ ''>  '' @ d, []]"

text \<open>The loop of \<^verbatim>\<open>generate_debian_changelog\<close>: the list \<^verbatim>\<open>output\<close>, or the exception.\<close>

fun output_lines :: "filler \<Rightarrow> entry list \<Rightarrow> error + string list" where
  "output_lines fill [] = Inr []"
| "output_lines fill (e # es) =
     (case format_debian_date (date e) of
        Inl err \<Rightarrow> Inl err
      | Inr d \<Rightarrow>
          (case output_lines fill es of
             Inl err \<Rightarrow> Inl err
           | Inr ls \<Rightarrow> Inr (entry_lines fill e d @ ls)))"

definition generate_debian_changelog :: "filler \<Rightarrow> entry list \<Rightarrow> error + string" where
  "generate_debian_changelog fill es =
     (case output_lines fill es of Inl err \<Rightarrow> Inl err | Inr ls \<Rightarrow> Inr (join_nl ls))"

section \<open>The command line\<close>

text \<open>
  What \<^verbatim>\<open>validate_input_file\<close> and \<^verbatim>\<open>open\<close> find at a path: nothing, something that is
  not a regular file, a file that cannot be read, or a readable file with its decoded
  text.
\<close>

datatype file_status = Missing | NotRegular | Unreadable | Readable string

text \<open>
  What a run leaves behind: the text on standard output, what was written to standard
  error (a message of the script, or the interpreter's traceback of an exception that
  nobody caught) and the exit status.
\<close>

datatype diagnostic = Message string | Traceback error

record outcome =
  stdout :: string
  stderr :: "diagnostic list"
  status :: nat

definition uncaught :: "error \<Rightarrow> outcome" where
  "uncaught e = \<lparr>stdout = [], stderr = [Traceback e], status = 1\<rparr>"

definition exit_with_message :: "string \<Rightarrow> outcome" where
  "exit_with_message msg = \<lparr>stdout = [], stderr = [Message msg], status = 1\<rparr>"

definition quoted :: "string \<Rightarrow> string" where
  "quoted path = CHR 0x27 # path @ [CHR 0x27]"

definition main :: "filler \<Rightarrow> (string \<Rightarrow> file_status) \<Rightarrow> string list \<Rightarrow> outcome" where
  "main fill fs argv =
     (if length argv \<noteq> 2
      then (case argv of
              [] \<Rightarrow> uncaught IndexError
            | prog # _ \<Rightarrow>
                \<lparr>stdout = ''Usage: '' @ prog @ '' Changelog.md'' @ [NL], stderr = [], status = 1\<rparr>)
      else
        (let md_path = argv ! 1
         in case fs md_path of
              Missing \<Rightarrow>
                exit_with_message (''Error: File '' @ quoted md_path @ '' does not exist.'' @ [NL])
            | NotRegular \<Rightarrow>
                exit_with_message (''Error: '' @ quoted md_path @ '' is not a regular file.'' @ [NL])
            | Unreadable \<Rightarrow>
                exit_with_message (''Error: File '' @ quoted md_path @ '' is not readable.'' @ [NL])
            | Readable txt \<Rightarrow>
                (case parse_markdown_changelog txt of
                   Inl e \<Rightarrow> uncaught e
                 | Inr es \<Rightarrow>
                     (case generate_debian_changelog fill es of
                        Inl e \<Rightarrow> uncaught e
                      | Inr debian_changelog \<Rightarrow>
                          \<lparr>stdout = debian_changelog @ [NL], stderr = [], status = 0\<rparr>))))"

section \<open>Basic facts about strings, the loop and the renderer\<close>

lemma run_loop_append:
  "run_loop (xs @ ys) s = (case run_loop xs s of Inl e \<Rightarrow> Inl e | Inr s' \<Rightarrow> run_loop ys s')"
  by (induction xs arbitrary: s) (auto split: sum.splits)

lemma output_lines_append:
  "output_lines fill (xs @ ys) =
     (case output_lines fill xs of
        Inl err \<Rightarrow> Inl err
      | Inr ls \<Rightarrow> (case output_lines fill ys of Inl err \<Rightarrow> Inl err | Inr ls' \<Rightarrow> Inr (ls @ ls')))"
  by (induction xs) (auto split: sum.splits)

lemma entry_lines_drop_empty:
  "entry_lines fill (e\<lparr>sections := ss1 @ (t, []) # ss2\<rparr>) d = entry_lines fill (e\<lparr>sections := ss1 @ ss2\<rparr>) d"
  by (simp add: entry_lines_def section_lines_def)

lemma strip_Cons_nonspace:
  "\<not> isspace c \<Longrightarrow> strip (c # cs) = c # rev (dropWhile isspace (rev cs))"
  by (simp add: strip_def dropWhile_append3)

lemma strip_Cons_space: "isspace c \<Longrightarrow> strip (c # cs) = strip cs"
  by (simp add: strip_def)

lemma strip_Nil_iff: "strip s = [] \<longleftrightarrow> (\<forall>c\<in>set s. isspace c)"
proof (induction s)
  case Nil
  show ?case by (simp add: strip_def)
next
  case (Cons c cs)
  show ?case
  proof (cases "isspace c")
    case True
    with Cons show ?thesis by (simp add: strip_Cons_space)
  next
    case False
    then show ?thesis by (auto simp: strip_Cons_nonspace)
  qed
qed

lemma version_header_starts: "version_header_re l = Some vd \<Longrightarrow> take 5 l = ''fping''"
  by (simp add: version_header_re_def Let_def split: if_splits)

lemma version_header_not_Next: "version_header_re l = Some vd \<Longrightarrow> strip l \<noteq> ''Next''"
proof -
  assume "version_header_re l = Some vd"
  then have "take 5 l = ''fping''" by (rule version_header_starts)
  then obtain cs where "l = CHR ''f'' # cs" by (cases l) auto
  then show ?thesis by (simp add: strip_Cons_nonspace isspace_def)
qed

lemma skipped_line:
  "version_header_re l = None \<Longrightarrow> loop_body l (s\<lparr>skip_next_block := True\<rparr>) = Inr (s\<lparr>skip_next_block := True\<rparr>)"
  by (simp add: loop_body_def)

lemma skipped_block:
  "\<forall>l\<in>set block. version_header_re l = None \<Longrightarrow>
   run_loop block (s\<lparr>skip_next_block := True\<rparr>) = Inr (s\<lparr>skip_next_block := True\<rparr>)"
  by (induction block) (simp_all add: skipped_line)

lemma version_header_ends_skip:
  "version_header_re l = Some vd \<Longrightarrow> loop_body l (s\<lparr>skip_next_block := True\<rparr>) = loop_body l s"
  by (simp add: loop_body_def version_header_not_Next on_version_def split: option.splits)

lemma space_first_no_version:
  "isspace c \<Longrightarrow> version_header_re (c # cs) = None"
  by (auto simp: version_header_re_def Let_def isspace_def)

lemma space_first_no_section:
  "isspace c \<Longrightarrow> section_re (c # cs) = None"
  by (auto simp: section_re_def Let_def isspace_def)

lemma continuation_first:
  "continuation_re l = Some t \<Longrightarrow> \<exists>c cs. l = c # cs \<and> isspace c"
  by (cases l) (auto simp: continuation_re_def split: if_splits)

lemma continuation_no_version: "continuation_re l = Some t \<Longrightarrow> version_header_re l = None"
proof -
  assume "continuation_re l = Some t"
  then obtain c cs where "l = c # cs" "isspace c" using continuation_first by blast
  then show ?thesis by (simp add: space_first_no_version)
qed

lemma continuation_no_section: "continuation_re l = Some t \<Longrightarrow> section_re l = None"
proof -
  assume "continuation_re l = Some t"
  then obtain c cs where "l = c # cs" "isspace c" using continuation_first by blast
  then show ?thesis by (simp add: space_first_no_section)
qed

lemma blank_no_version: "\<forall>c\<in>set l. isspace c \<Longrightarrow> version_header_re l = None"
  by (cases l) (simp_all add: space_first_no_version, simp add: version_header_re_def)

lemma blank_no_section: "\<forall>c\<in>set l. isspace c \<Longrightarrow> section_re l = None"
  by (cases l) (simp_all add: space_first_no_section, simp add: section_re_def)

lemma blank_dropWhile: "\<forall>c\<in>set l. isspace c \<Longrightarrow> dropWhile isspace l = []"
  by simp

lemma blank_takeWhile: "\<forall>c\<in>set l. isspace c \<Longrightarrow> takeWhile isspace l = l"
  by simp

lemma blank_no_bullet: "\<forall>c\<in>set l. isspace c \<Longrightarrow> bullet_re l = None"
  by (simp add: bullet_re_def Let_def blank_dropWhile)

lemma blank_continuation:
  "\<forall>c\<in>set l. isspace c \<Longrightarrow> continuation_re l = (if 2 \<le> length l then Some [] else None)"
  by (simp add: continuation_re_def blank_dropWhile blank_takeWhile)

lemma continuation_step:
  assumes "continuation_re l = Some t" and "bullet_re l = None" and "strip l \<noteq> ''Next''"
    and "skip_next_block s = False" and "current s = Some cur" and "bullet_accumulator s = Some acc"
  shows "loop_body l s = Inr (s\<lparr>bullet_accumulator := Some (acc @ '' '' @ strip t)\<rparr>)"
  using assms
  by (simp add: loop_body_def Let_def continuation_no_version continuation_no_section on_rest_def)











section \<open>The claims\<close>

text \<open>
  C4: when a line whose trimmed content is \<^verbatim>\<open>Next\<close> is followed by a block of lines, none
  of them a version header, and then by a version header, the whole block is discarded: the
  parser returns what it returns for the document without the \<^verbatim>\<open>Next\<close> line and the
  block, so nothing of the block reaches an entry, and processing resumes at the version
  header.
\<close>

theorem next_block_discarded:
  assumes "strip nl = ''Next''"
    and "\<forall>l\<in>set block. version_header_re l = None"
    and "version_header_re vh = Some vd"
  shows "parse_lines (pre @ nl # block @ vh # post) = parse_lines (pre @ vh # post)"
proof -
  have "run_loop (nl # block @ vh # post) s = run_loop (vh # post) s" for s
  proof -
    have "run_loop (nl # block @ vh # post) s = run_loop (block @ vh # post) (s\<lparr>skip_next_block := True\<rparr>)"
      using assms(1) by (simp add: loop_body_def)
    also have "\<dots> = run_loop (vh # post) (s\<lparr>skip_next_block := True\<rparr>)"
      using skipped_block[OF assms(2)] by (simp add: run_loop_append)
    also have "\<dots> = run_loop (vh # post) s"
      using version_header_ends_skip[OF assms(3)] by simp
    finally show ?thesis .
  qed
  then show ?thesis
    by (simp add: parse_lines_def run_loop_append split: sum.splits)
qed

theorem next_block_discarded_witness:
  "parse_lines ([''fping 1.0 (2024-01-01)'', ''## A'', ''- kept''] @ ''Next'' # [''## B'', ''- dropped''] @ ''fping 0.9 (2023-01-01)'' # [''## C'', ''- also kept'']) =
   parse_lines ([''fping 1.0 (2024-01-01)'', ''## A'', ''- kept''] @ ''fping 0.9 (2023-01-01)'' # [''## C'', ''- also kept''])"
proof -
  have 1: "strip ''Next'' = ''Next''" by code_simp
  have 2: "\<forall>l\<in>set [''## B'', ''- dropped'']. version_header_re l = None" by code_simp
  have 3: "version_header_re ''fping 0.9 (2023-01-01)'' = Some (''0.9'', ''2023-01-01'')" by code_simp
  show ?thesis using next_block_discarded[OF 1 2 3,
      where pre = "[''fping 1.0 (2024-01-01)'', ''## A'', ''- kept'']"
        and post = "[''## C'', ''- also kept'']"] by simp
qed

text \<open>
  C5: a run with an argument count other than one positional argument ends with status 1
  and a usage message. The script prints the message with \<^verbatim>\<open>print\<close>, so it goes to
  standard output and standard error stays empty, while the three messages of
  \<^verbatim>\<open>validate_input_file\<close> go to standard error. Here the run without an argument.
\<close>

theorem usage_message_on_stdout:
  "main fill fs [''generate-debian-changelog.py''] =
     \<lparr>stdout = ''Usage: generate-debian-changelog.py Changelog.md'' @ [NL], stderr = [], status = 1\<rparr>"
  by (simp add: main_def)

text \<open>
  C7: a section whose item sequence is empty appends nothing to the output, neither its
  \<^verbatim>\<open>  * \<close> line nor an item line: the rendered text is the text rendered without that
  section.
\<close>

theorem empty_section_not_rendered:
  "section_lines fill (t, []) = [] \<and>
   generate_debian_changelog fill (es1 @ e\<lparr>sections := ss1 @ (t, []) # ss2\<rparr> # es2) =
   generate_debian_changelog fill (es1 @ e\<lparr>sections := ss1 @ ss2\<rparr> # es2)"
proof -
  have "output_lines fill (es1 @ e\<lparr>sections := ss1 @ (t, []) # ss2\<rparr> # es2) =
        output_lines fill (es1 @ e\<lparr>sections := ss1 @ ss2\<rparr> # es2)"
    by (simp add: output_lines_append entry_lines_drop_empty split: sum.splits)
  then show ?thesis
    by (simp only: generate_debian_changelog_def section_lines_def snd_conv if_True simp_thms)
qed

text \<open>
  C10: while an item is pending (in an open entry, outside a skipped block), a line of
  whitespace only with at least two characters is taken as a continuation line: it appends
  a single space and the empty trimmed text to the pending item and commits nothing, and a
  following continuation line joins onto the same item. Among the lines that are no header
  and no bullet, one that clears the pending item has empty trimmed content and fewer than
  two leading whitespace characters; such a line, with a non-empty pending item in a
  non-empty current section, commits the item.
\<close>

theorem blank_line_with_pending_item:
  assumes "skip_next_block s = False" and "current s = Some cur"
    and "bullet_accumulator s = Some acc"
  shows "(\<forall>l. (\<forall>c\<in>set l. isspace c) \<and> 2 \<le> length l \<longrightarrow>
            loop_body l s = Inr (s\<lparr>bullet_accumulator := Some (acc @ '' '')\<rparr>)) \<and>
         (\<forall>l t. continuation_re l = Some t \<and> bullet_re l = None \<and> strip l \<noteq> ''Next'' \<longrightarrow>
            loop_body l (s\<lparr>bullet_accumulator := Some (acc @ '' '')\<rparr>) =
              Inr (s\<lparr>bullet_accumulator := Some (acc @ '' '' @ '' '' @ strip t)\<rparr>)) \<and>
         (\<forall>l s'. version_header_re l = None \<and> section_re l = None \<and> bullet_re l = None \<and>
            loop_body l s = Inr s' \<and> bullet_accumulator s' = None \<longrightarrow>
              strip l = [] \<and> length (takeWhile isspace l) < 2) \<and>
         (\<forall>l sec d. strip l = [] \<and> length l < 2 \<and> acc \<noteq> [] \<and> current_section s = Some sec \<and>
            sec \<noteq> [] \<and> dict_append sec (strip acc) (sections cur) = Inr d \<longrightarrow>
              loop_body l s = Inr (s\<lparr>current := Some (cur\<lparr>sections := d\<rparr>),
                                     bullet_accumulator := None\<rparr>))"
proof (intro conjI allI impI)
  fix l assume l: "(\<forall>c\<in>set l. isspace c) \<and> 2 \<le> length l"
  then have "continuation_re l = Some []" "bullet_re l = None" "strip l = []"
    by (simp_all add: blank_continuation blank_no_bullet strip_Nil_iff)
  moreover have "strip [] = []" by (simp add: strip_def)
  ultimately show "loop_body l s = Inr (s\<lparr>bullet_accumulator := Some (acc @ '' '')\<rparr>)"
    using continuation_step[of l "[]" s cur acc] assms by simp
next
  fix l t assume "continuation_re l = Some t \<and> bullet_re l = None \<and> strip l \<noteq> ''Next''"
  then show "loop_body l (s\<lparr>bullet_accumulator := Some (acc @ '' '')\<rparr>) =
              Inr (s\<lparr>bullet_accumulator := Some (acc @ '' '' @ '' '' @ strip t)\<rparr>)"
    using continuation_step[of l t "s\<lparr>bullet_accumulator := Some (acc @ '' '')\<rparr>" cur "acc @ '' ''"] assms
    by simp
next
  fix l s'
  assume a: "version_header_re l = None \<and> section_re l = None \<and> bullet_re l = None \<and>
            loop_body l s = Inr s' \<and> bullet_accumulator s' = None"
  show "strip l = []"
    using a assms
    by (auto simp: loop_body_def Let_def on_rest_def on_other_def flush_def
        split: if_splits option.splits sum.splits prod.splits)
  show "length (takeWhile isspace l) < 2"
    using a assms
    by (auto simp: loop_body_def Let_def on_rest_def on_other_def flush_def continuation_re_def
        split: if_splits option.splits sum.splits prod.splits)
next
  fix l sec d
  assume a: "strip l = [] \<and> length l < 2 \<and> acc \<noteq> [] \<and> current_section s = Some sec \<and>
            sec \<noteq> [] \<and> dict_append sec (strip acc) (sections cur) = Inr d"
  then have b: "\<forall>c\<in>set l. isspace c" by (simp add: strip_Nil_iff)
  have "continuation_re l = None" using a b by (simp add: blank_continuation)
  then show "loop_body l s = Inr (s\<lparr>current := Some (cur\<lparr>sections := d\<rparr>), bullet_accumulator := None\<rparr>)"
    using a b assms
    by (simp add: loop_body_def Let_def blank_no_version blank_no_section blank_no_bullet
        on_rest_def on_other_def flush_def append_item_def truthy_def)
qed

theorem blank_line_with_pending_item_witness:
  "loop_body ''   ''
     \<lparr>entries = [], current = Some \<lparr>version = ''1.0'', date = ''2024-01-01'', sections = [(''A'', [])]\<rparr>,
      current_section = Some ''A'', skip_next_block = False, bullet_accumulator = Some ''foo''\<rparr> =
   Inr \<lparr>entries = [], current = Some \<lparr>version = ''1.0'', date = ''2024-01-01'', sections = [(''A'', [])]\<rparr>,
      current_section = Some ''A'', skip_next_block = False, bullet_accumulator = Some ''foo ''\<rparr> \<and>
   loop_body ''  bar''
     \<lparr>entries = [], current = Some \<lparr>version = ''1.0'', date = ''2024-01-01'', sections = [(''A'', [])]\<rparr>,
      current_section = Some ''A'', skip_next_block = False, bullet_accumulator = Some ''foo ''\<rparr> =
   Inr \<lparr>entries = [], current = Some \<lparr>version = ''1.0'', date = ''2024-01-01'', sections = [(''A'', [])]\<rparr>,
      current_section = Some ''A'', skip_next_block = False, bullet_accumulator = Some ''foo  bar''\<rparr> \<and>
   loop_body '' ''
     \<lparr>entries = [], current = Some \<lparr>version = ''1.0'', date = ''2024-01-01'', sections = [(''A'', [])]\<rparr>,
      current_section = Some ''A'', skip_next_block = False, bullet_accumulator = Some ''foo''\<rparr> =
   Inr \<lparr>entries = [], current = Some \<lparr>version = ''1.0'', date = ''2024-01-01'', sections = [(''A'', [''foo''])]\<rparr>,
      current_section = Some ''A'', skip_next_block = False, bullet_accumulator = None\<rparr>"
proof -
  let ?cur = "\<lparr>version = ''1.0'', date = ''2024-01-01'', sections = [(''A'', [])]\<rparr>"
  let ?s = "\<lparr>entries = [], current = Some ?cur, current_section = Some ''A'',
             skip_next_block = False, bullet_accumulator = Some ''foo''\<rparr>"
  have h: "skip_next_block ?s = False" "current ?s = Some ?cur" "bullet_accumulator ?s = Some ''foo''"
    by simp_all
  note t = blank_line_with_pending_item[OF h]
  have 1: "(\<forall>c\<in>set ''   ''. isspace c) \<and> 2 \<le> length ''   ''" by (simp add: isspace_def)
  have 2: "continuation_re ''  bar'' = Some ''bar'' \<and> bullet_re ''  bar'' = None \<and> strip ''  bar'' \<noteq> ''Next''"
    by (simp add: continuation_re_def bullet_re_def strip_def isspace_def)
  have 3: "strip '' '' = [] \<and> length '' '' < 2 \<and> ''foo'' \<noteq> [] \<and> current_section ?s = Some ''A'' \<and>
            ''A'' \<noteq> [] \<and> dict_append ''A'' (strip ''foo'') (sections ?cur) = Inr [(''A'', [''foo''])]"
    by (simp add: strip_def isspace_def)
  have s: "strip ''bar'' = ''bar''" by (simp add: strip_def isspace_def)
  show ?thesis
    using t[THEN conjunct1, rule_format, OF 1]
      t[THEN conjunct2, THEN conjunct1, rule_format, OF 2]
      t[THEN conjunct2, THEN conjunct2, THEN conjunct2, rule_format, OF 3] s
    by simp
qed



end
